theory Spec2Isabelle
  imports Main "HOL-Library.Word"
begin

section \<open>JavaScript strings\<close>

text \<open>
  A JavaScript string is a sequence of 16-bit UTF-16 code units. The literals of
  \<^verbatim>\<open>index.tsx\<close> are ASCII, with one exception (the em dash U+2014 inside
  \<^verbatim>\<open>imagenPrompt\<close>), so a literal is written \<open>str ''...''\<close>.
\<close>

type_synonym js_string = "16 word list"

definition str :: "string \<Rightarrow> js_string" where
  "str cs = map of_char cs"

text \<open>
  \<^verbatim>\<open>String.prototype.trim\<close>: strips the code units of ECMAScript's WhiteSpace and
  LineTerminator productions from both ends.
\<close>

definition is_white_space :: "16 word \<Rightarrow> bool" where
  "is_white_space c \<longleftrightarrow>
     c = 0x0009 \<or> c = 0x000A \<or> c = 0x000B \<or> c = 0x000C \<or> c = 0x000D \<or> c = 0x0020 \<or>
     c = 0x00A0 \<or> c = 0x1680 \<or> (0x2000 \<le> c \<and> c \<le> 0x200A) \<or> c = 0x2028 \<or>
     c = 0x2029 \<or> c = 0x202F \<or> c = 0x205F \<or> c = 0x3000 \<or> c = 0xFEFF"

definition trim :: "js_string \<Rightarrow> js_string" where
  "trim s = rev (dropWhile is_white_space (rev (dropWhile is_white_space s)))"

text \<open>
  A template literal renders an \<^verbatim>\<open>undefined\<close> value as the text "undefined", and
  an array index (a non-negative integer) in decimal.
\<close>

definition template_opt :: "js_string option \<Rightarrow> js_string" where
  "template_opt v = (case v of None \<Rightarrow> str ''undefined'' | Some t \<Rightarrow> t)"

definition digit :: "nat \<Rightarrow> 16 word" where
  "digit d = 0x30 + of_nat d"

fun decimal :: "nat \<Rightarrow> js_string" where
  "decimal n = (if n < 10 then [digit n] else decimal (n div 10) @ [digit (n mod 10)])"

declare decimal.simps [simp del]

section \<open>The types of the generation service\<close>

text \<open>
  The request and response shapes of \<^verbatim>\<open>@google/genai\<close>, with the fields that
  \<^verbatim>\<open>index.tsx\<close> reads or writes. An optional field is an \<open>option\<close>.
\<close>

datatype Modality = MODALITY_UNSPECIFIED | TEXT | IMAGE | AUDIO

datatype PersonGeneration = DONT_ALLOW | ALLOW_ADULT | ALLOW_ALL

record blob =
  blob_data :: "js_string option"
  blob_mimeType :: "js_string option"

record part =
  part_inlineData :: "blob option"
  part_text :: "js_string option"

record content =
  content_parts :: "part list option"

record candidate =
  candidate_content :: "content option"

record generate_content_response =
  response_candidates :: "candidate list option"

record generate_content_request =
  content_model :: js_string
  contents_parts :: "part list"
  responseModalities :: "Modality list"

record image_payload =
  imageBytes :: "js_string option"

record generated_image =
  generated_image_image :: "image_payload option"

record generate_images_response =
  generatedImages :: "generated_image list option"

record generate_images_request =
  images_model :: js_string
  images_prompt :: js_string
  numberOfImages :: nat
  aspectRatio :: js_string
  personGeneration :: PersonGeneration
  outputMimeType :: js_string
  includeRaiReason :: bool

text \<open>
  A call of the service either throws or rejects (the error is opaque), or resolves to a
  response, which the code reads through \<^verbatim>\<open>?.\<close> and so may be absent.
\<close>

datatype 'r outcome = Rejected | Resolved "'r option"

text \<open>
  The service is a parameter: a function from the request to the outcome of the call. A
  request flow is modelled from the event that starts it to the end of the code after its
  \<^verbatim>\<open>await\<close>, with no other event handled in between.
\<close>

record ai =
  models_generateContent :: "generate_content_request \<Rightarrow> generate_content_response outcome"
  models_generateImages :: "generate_images_request \<Rightarrow> generate_images_response outcome"

section \<open>The page and the application state\<close>

datatype node =
  is_Paragraph: Paragraph js_string js_string
  | is_Img: Img (src: js_string) (alt: js_string)

datatype api_call =
  GenerateContent generate_content_request
  | GenerateImages generate_images_request

datatype log_entry =
  Console_log js_string "js_string option"
  | Console_error js_string

record uploaded_image =
  data :: js_string
  mimeType :: js_string

text \<open>
  The state is the module variable \<^verbatim>\<open>uploadedImageData\<close>, the properties of the
  DOM elements that the code touches, and two traces: the calls made to the service and
  the console. A \<open>Paragraph c t\<close> is \<^verbatim>\<open><p class="c">t</p>\<close>, an \<open>Img src alt\<close> is
  an image element; a console entry keeps the label and, when the logged value is a
  string, that string.
\<close>

record app =
  modelSelector_value :: js_string
  imageGallery_aria_busy :: js_string
  imageGallery_children :: "node list"
  imageEditingControls_display :: js_string
  imageUpload_value :: js_string
  imagePreview_src :: js_string
  imagePreview_display :: js_string
  promptInput_value :: js_string
  uploadedImageData :: "uploaded_image option"
  api_calls :: "api_call list"
  console :: "log_entry list"

definition imagenPrompt :: js_string where
  "imagenPrompt =
     str ''Editorial wildlife photograph: a sleek black panther standing regally on a reflective salt flat at dusk, wearing a dramatic, sculptural couture gown inspired by organic forms. The landscape is vast and otherworldly but grounded in reality, with subtle shimmering textures and a warm, golden-hour glow. Captured with a cinematic 35mm lens, shallow depth of field, natural shadows, and authentic fur and fabric textures''
     @ [0x2014]
     @ str ''evoking a high-fashion magazine cover with a surreal, yet believable, atmosphere.''"

definition setLoading :: "bool \<Rightarrow> app \<Rightarrow> app" where
  "setLoading isLoading s =
     (if isLoading then
        s\<lparr>imageGallery_aria_busy := str ''true'',
          imageGallery_children :=
            [Paragraph (str ''loading'') (str ''Generating images, please wait...'')]\<rparr>
      else
        s\<lparr>imageGallery_aria_busy := str ''false'',
          imageGallery_children := []\<rparr>)"

definition displayError :: "js_string \<Rightarrow> app \<Rightarrow> app" where
  "displayError message s =
     (setLoading False s)
       \<lparr>imageGallery_children := [Paragraph (str ''error'') (str ''Error: '' @ message)]\<rparr>"

definition appendChild :: "node \<Rightarrow> app \<Rightarrow> app" where
  "appendChild n s = s\<lparr>imageGallery_children := imageGallery_children s @ [n]\<rparr>"

definition console_log :: "js_string \<Rightarrow> js_string option \<Rightarrow> app \<Rightarrow> app" where
  "console_log label v s = s\<lparr>console := console s @ [Console_log label v]\<rparr>"

definition console_error :: "js_string \<Rightarrow> app \<Rightarrow> app" where
  "console_error label s = s\<lparr>console := console s @ [Console_error label]\<rparr>"

section \<open>The edit request flow\<close>

text \<open>\<^verbatim>\<open>response?.candidates?.[0]?.content?.parts\<close>\<close>

definition response_parts :: "generate_content_response option \<Rightarrow> part list option" where
  "response_parts response =
     (case response of
        None \<Rightarrow> None
      | Some r \<Rightarrow>
          (case response_candidates r of
             None \<Rightarrow> None
           | Some cs \<Rightarrow>
               (case cs of
                  [] \<Rightarrow> None
                | c # _ \<Rightarrow>
                    (case candidate_content c of
                       None \<Rightarrow> None
                     | Some ct \<Rightarrow> content_parts ct))))"

definition inline_src :: "blob \<Rightarrow> js_string" where
  "inline_src b =
     str ''data:'' @ template_opt (blob_mimeType b) @ str '';base64,'' @ template_opt (blob_data b)"

text \<open>The body of the \<^verbatim>\<open>for ... of\<close> loop, and the loop.\<close>

definition render_part :: "js_string \<Rightarrow> part \<Rightarrow> app \<Rightarrow> app" where
  "render_part prompt p s =
     (case part_inlineData p of
        Some b \<Rightarrow> appendChild (Img (inline_src b) prompt) s
      | None \<Rightarrow>
          (case part_text p of
             Some t \<Rightarrow>
               if t \<noteq> [] then console_log (str ''Model's text response:'') (Some t) s else s
           | None \<Rightarrow> s))"

fun render_parts :: "js_string \<Rightarrow> part list \<Rightarrow> app \<Rightarrow> app" where
  "render_parts prompt [] s = s"
| "render_parts prompt (p # ps) s = render_parts prompt ps (render_part prompt p s)"

definition edit_request :: "uploaded_image \<Rightarrow> js_string \<Rightarrow> generate_content_request" where
  "edit_request u prompt =
     \<lparr>content_model = str ''gemini-2.5-flash-image-preview'',
      contents_parts =
        [\<lparr>part_inlineData = Some \<lparr>blob_data = Some (data u), blob_mimeType = Some (mimeType u)\<rparr>,
          part_text = None\<rparr>,
         \<lparr>part_inlineData = None, part_text = Some prompt\<rparr>],
      responseModalities = [IMAGE, TEXT]\<rparr>"

definition generateEditedImage :: "ai \<Rightarrow> app \<Rightarrow> app" where
  "generateEditedImage service s =
     (case uploadedImageData s of
        None \<Rightarrow> displayError (str ''Please upload an image first.'') s
      | Some u \<Rightarrow>
          (let prompt = trim (promptInput_value s) in
           if prompt = [] then
             displayError (str ''Please enter a prompt to describe the edits.'') s
           else
             (let s1 = setLoading True s;
                  request = edit_request u prompt;
                  s2 = s1\<lparr>api_calls := api_calls s1 @ [GenerateContent request]\<rparr>
              in case models_generateContent service request of
                   Rejected \<Rightarrow>
                     displayError (str ''Could not edit image. Check the console for details.'')
                       (console_error (str ''Error editing image:'') s2)
                 | Resolved response \<Rightarrow>
                     (let s3 = setLoading False s2;
                          s4 = (case response_parts response of
                                  Some ps \<Rightarrow> render_parts prompt ps s3
                                | None \<Rightarrow>
                                    displayError
                                      (str ''No image was generated. The response may have been blocked.'')
                                      s3)
                      in console_log (str ''Full response:'') None s4))))"

section \<open>The generate request flow\<close>

definition generate_request :: "js_string \<Rightarrow> generate_images_request" where
  "generate_request selectedModel =
     \<lparr>images_model = selectedModel,
      images_prompt = imagenPrompt,
      numberOfImages = (if selectedModel = str ''imagen-4.0-ultra-generate-001'' then 1 else 3),
      aspectRatio = str ''1:1'',
      personGeneration = ALLOW_ADULT,
      outputMimeType = str ''image/jpeg'',
      includeRaiReason = True\<rparr>"

text \<open>\<^verbatim>\<open>generatedImage.image?.imageBytes\<close>, and its truthiness: present and not empty.\<close>

definition image_bytes :: "generated_image \<Rightarrow> js_string option" where
  "image_bytes g =
     (case generated_image_image g of None \<Rightarrow> None | Some i \<Rightarrow> imageBytes i)"

definition has_image_bytes :: "generated_image \<Rightarrow> bool" where
  "has_image_bytes g = (case image_bytes g of None \<Rightarrow> False | Some b \<Rightarrow> b \<noteq> [])"

definition generated_node :: "nat \<Rightarrow> generated_image \<Rightarrow> node" where
  "generated_node index g =
     Img (str ''data:image/jpeg;base64,'' @ template_opt (image_bytes g))
         (imagenPrompt @ str '' - Image '' @ decimal (index + 1))"

text \<open>The callback of \<^verbatim>\<open>forEach\<close>, and \<^verbatim>\<open>forEach\<close> from a given index on.\<close>

definition render_generated :: "generated_image \<Rightarrow> nat \<Rightarrow> app \<Rightarrow> app" where
  "render_generated g index s =
     (if has_image_bytes g then appendChild (generated_node index g) s else s)"

fun forEach_generated :: "nat \<Rightarrow> generated_image list \<Rightarrow> app \<Rightarrow> app" where
  "forEach_generated index [] s = s"
| "forEach_generated index (g # gs) s =
     forEach_generated (Suc index) gs (render_generated g index s)"

text \<open>\<^verbatim>\<open>response?.generatedImages\<close>\<close>

definition response_generatedImages ::
  "generate_images_response option \<Rightarrow> generated_image list option" where
  "response_generatedImages response =
     (case response of None \<Rightarrow> None | Some r \<Rightarrow> generatedImages r)"

definition generateImages :: "ai \<Rightarrow> app \<Rightarrow> app" where
  "generateImages service s =
     (let s1 = setLoading True s;
          selectedModel = modelSelector_value s1;
          request = generate_request selectedModel;
          s2 = s1\<lparr>api_calls := api_calls s1 @ [GenerateImages request]\<rparr>
      in case models_generateImages service request of
           Rejected \<Rightarrow>
             displayError (str ''Could not generate images. Check the console for details.'')
               (console_error (str ''Error generating images:'') s2)
         | Resolved response \<Rightarrow>
             (let s3 = setLoading False s2;
                  s4 = (case response_generatedImages response of
                          Some gs \<Rightarrow> forEach_generated 0 gs s3
                        | None \<Rightarrow> s3)
              in console_log (str ''Full response:'') None s4))"

section \<open>The mode controller\<close>

definition handleModelChange :: "ai \<Rightarrow> app \<Rightarrow> app" where
  "handleModelChange service s =
     (let selectedModel = modelSelector_value s;
          s1 = setLoading False s;
          s2 = s1\<lparr>imageGallery_children := []\<rparr>
      in if selectedModel = str ''gemini-2.5-flash-image-preview'' then
           s2\<lparr>imageEditingControls_display := str ''flex'',
              uploadedImageData := None,
              imageUpload_value := [],
              imagePreview_src := str ''#'',
              imagePreview_display := str ''none'',
              promptInput_value := []\<rparr>
         else
           generateImages service (s2\<lparr>imageEditingControls_display := str ''none''\<rparr>))"

text \<open>
  The \<^verbatim>\<open>change\<close> listener of the selector: the browser stores the chosen option's
  value, then runs \<^verbatim>\<open>handleModelChange\<close>.
\<close>

definition modelSelector_change :: "js_string \<Rightarrow> ai \<Rightarrow> app \<Rightarrow> app" where
  "modelSelector_change identifier service s =
     handleModelChange service (s\<lparr>modelSelector_value := identifier\<rparr>)"

section \<open>What the user sees\<close>

text \<open>The images of the gallery, in document order.\<close>

definition rendered_images :: "app \<Rightarrow> node list" where
  "rendered_images s = filter is_Img (imageGallery_children s)"

section \<open>Concrete pages and services\<close>

text \<open>
  The page once it has loaded: the first option of the selector is the editing model, and
  the initial run of \<^verbatim>\<open>handleModelChange\<close> has shown the edit controls.
\<close>

definition page_loaded :: app where
  "page_loaded =
     \<lparr>modelSelector_value = str ''gemini-2.5-flash-image-preview'',
      imageGallery_aria_busy = str ''false'',
      imageGallery_children = [],
      imageEditingControls_display = str ''flex'',
      imageUpload_value = [],
      imagePreview_src = str ''#'',
      imagePreview_display = str ''none'',
      promptInput_value = [],
      uploadedImageData = None,
      api_calls = [],
      console = []\<rparr>"

definition uploaded_png :: uploaded_image where
  "uploaded_png = \<lparr>data = str ''iVBORw0KGgo='', mimeType = str ''image/png''\<rparr>"

text \<open>An image is uploaded; the prompt is a space, a tab, a line feed and a no-break space.\<close>

definition page_blank_prompt :: app where
  "page_blank_prompt =
     page_loaded\<lparr>uploadedImageData := Some uploaded_png,
                 imageUpload_value := str ''C:/fakepath/cat.png'',
                 promptInput_value := [0x20, 0x09, 0x0A, 0xA0]\<rparr>"

definition page_ready :: app where
  "page_ready =
     page_loaded\<lparr>uploadedImageData := Some uploaded_png,
                 imageUpload_value := str ''C:/fakepath/cat.png'',
                 promptInput_value := str '' add a hat ''\<rparr>"

text \<open>A generation model is selected (the edit controls are hidden); the rest is as before.\<close>

definition page_generation :: app where
  "page_generation =
     page_ready\<lparr>modelSelector_value := str ''imagen-4.0-generate-001'',
                imageEditingControls_display := str ''none''\<rparr>"

definition image_part :: "string \<Rightarrow> part" where
  "image_part d =
     \<lparr>part_inlineData = Some \<lparr>blob_data = Some (str d), blob_mimeType = Some (str ''image/png'')\<rparr>,
      part_text = None\<rparr>"

definition text_part :: "string \<Rightarrow> part" where
  "text_part t = \<lparr>part_inlineData = None, part_text = Some (str t)\<rparr>"

definition content_response :: "part list option \<Rightarrow> generate_content_response" where
  "content_response ps =
     \<lparr>response_candidates = Some [\<lparr>candidate_content = Some \<lparr>content_parts = ps\<rparr>\<rparr>]\<rparr>"

definition generated :: "string option \<Rightarrow> generated_image" where
  "generated d = \<lparr>generated_image_image = Some \<lparr>imageBytes = map_option str d\<rparr>\<rparr>"

text \<open>A service whose calls always fail.\<close>

definition service_rejecting :: ai where
  "service_rejecting =
     \<lparr>models_generateContent = (\<lambda>_. Rejected), models_generateImages = (\<lambda>_. Rejected)\<rparr>"

text \<open>
  A service that answers an edit with a text part between two images, and a generation
  with three entries of which the second has no payload.
\<close>

definition service_images :: ai where
  "service_images =
     \<lparr>models_generateContent =
        (\<lambda>_. Resolved (Some (content_response
               (Some [image_part ''AAAA'', text_part ''Here you go'', image_part ''BBBB''])))),
      models_generateImages =
        (\<lambda>_. Resolved (Some \<lparr>generatedImages =
               Some [generated (Some ''AAAA''), generated None, generated (Some ''CCCC'')]\<rparr>))\<rparr>"

text \<open>A service whose answers hold an empty list of parts and an empty list of images.\<close>

definition service_empty :: ai where
  "service_empty =
     \<lparr>models_generateContent = (\<lambda>_. Resolved (Some (content_response (Some [])))),
      models_generateImages = (\<lambda>_. Resolved (Some \<lparr>generatedImages = Some []\<rparr>))\<rparr>"

text \<open>A service whose answers carry neither candidates nor an image list.\<close>

definition service_blocked :: ai where
  "service_blocked =
     \<lparr>models_generateContent = (\<lambda>_. Resolved (Some \<lparr>response_candidates = None\<rparr>)),
      models_generateImages = (\<lambda>_. Resolved (Some \<lparr>generatedImages = None\<rparr>))\<rparr>"

section \<open>Basic facts about the page operations\<close>

lemma setLoading_fields:
  "imageGallery_aria_busy (setLoading False s) = str ''false''"
  "imageGallery_children (setLoading False s) = []"
  "api_calls (setLoading b s) = api_calls s"
  "console (setLoading b s) = console s"
  "uploadedImageData (setLoading b s) = uploadedImageData s"
  "promptInput_value (setLoading b s) = promptInput_value s"
  "modelSelector_value (setLoading b s) = modelSelector_value s"
  "imageEditingControls_display (setLoading b s) = imageEditingControls_display s"
  by (simp_all add: setLoading_def)

lemma displayError_eq:
  "displayError message s =
     s\<lparr>imageGallery_aria_busy := str ''false'',
       imageGallery_children := [Paragraph (str ''error'') (str ''Error: '' @ message)]\<rparr>"
  by (simp add: displayError_def setLoading_def)

lemma render_part_fields:
  "api_calls (render_part prompt p s) = api_calls s"
  "imageGallery_aria_busy (render_part prompt p s) = imageGallery_aria_busy s"
  "imageGallery_children (render_part prompt p s) =
     imageGallery_children s @
       (case part_inlineData p of Some b \<Rightarrow> [Img (inline_src b) prompt] | None \<Rightarrow> [])"
  by (simp_all add: render_part_def appendChild_def console_log_def split: option.splits)

lemma render_parts_api_calls: "api_calls (render_parts prompt ps s) = api_calls s"
  by (induction ps arbitrary: s) (simp_all add: render_part_fields)

lemma render_parts_aria_busy:
  "imageGallery_aria_busy (render_parts prompt ps s) = imageGallery_aria_busy s"
  by (induction ps arbitrary: s) (simp_all add: render_part_fields)

lemma render_parts_children:
  "imageGallery_children (render_parts prompt ps s) =
     imageGallery_children s @
       map (\<lambda>b. Img (inline_src b) prompt) (List.map_filter part_inlineData ps)"
  by (induction ps arbitrary: s)
    (simp_all add: render_part_fields map_filter_simps split: option.splits)

lemma render_generated_fields:
  "api_calls (render_generated g index s) = api_calls s"
  "imageGallery_aria_busy (render_generated g index s) = imageGallery_aria_busy s"
  "imageGallery_children (render_generated g index s) =
     imageGallery_children s @ (if has_image_bytes g then [generated_node index g] else [])"
  by (simp_all add: render_generated_def appendChild_def)

lemma forEach_generated_api_calls: "api_calls (forEach_generated index gs s) = api_calls s"
  by (induction gs arbitrary: index s) (simp_all add: render_generated_fields)

lemma forEach_generated_controls:
  "imageEditingControls_display (forEach_generated index gs s) = imageEditingControls_display s"
  by (induction gs arbitrary: index s) (simp_all add: render_generated_def appendChild_def)

lemma forEach_generated_aria_busy:
  "imageGallery_aria_busy (forEach_generated index gs s) = imageGallery_aria_busy s"
  by (induction gs arbitrary: index s) (simp_all add: render_generated_fields)

lemma forEach_generated_children:
  "imageGallery_children (forEach_generated index gs s) =
     imageGallery_children s @
       map (\<lambda>(i, g). generated_node i g)
         (filter (\<lambda>(i, g). has_image_bytes g) (enumerate index gs))"
  by (induction gs arbitrary: index s) (simp_all add: render_generated_fields)

lemma enumerate_as_indices:
  "enumerate 0 gs = map (\<lambda>i. (i, gs ! i)) [0..<length gs]"
  by (rule nth_equalityI) (simp_all add: nth_enumerate_eq)

lemma generateImages_api_calls:
  "api_calls (generateImages service s) =
     api_calls s @ [GenerateImages (generate_request (modelSelector_value s))]"
  by (simp add: generateImages_def Let_def displayError_eq console_error_def console_log_def
      setLoading_fields forEach_generated_api_calls split: outcome.splits option.splits)

lemma generateImages_resolved:
  assumes "models_generateImages service (generate_request (modelSelector_value s)) =
             Resolved response"
  shows "imageGallery_children (generateImages service s) =
           (case response_generatedImages response of
              None \<Rightarrow> []
            | Some gs \<Rightarrow>
                map (\<lambda>(i, g). generated_node i g)
                  (filter (\<lambda>(i, g). has_image_bytes g) (enumerate 0 gs)))"
    and "imageGallery_aria_busy (generateImages service s) = str ''false''"
  using assms
  by (simp_all add: generateImages_def Let_def console_log_def setLoading_fields
      forEach_generated_children forEach_generated_aria_busy split: option.splits)

lemma generateEditedImage_resolved:
  assumes "uploadedImageData s = Some u" and "trim (promptInput_value s) \<noteq> []"
    and "models_generateContent service (edit_request u (trim (promptInput_value s))) =
           Resolved response"
  shows "imageGallery_children (generateEditedImage service s) =
           (case response_parts response of
              None \<Rightarrow>
                [Paragraph (str ''error'')
                   (str ''Error: '' @
                    str ''No image was generated. The response may have been blocked.'')]
            | Some ps \<Rightarrow>
                map (\<lambda>b. Img (inline_src b) (trim (promptInput_value s)))
                  (List.map_filter part_inlineData ps))"
    and "imageGallery_aria_busy (generateEditedImage service s) = str ''false''"
  using assms
  by (simp_all add: generateEditedImage_def Let_def console_log_def setLoading_fields
      displayError_eq render_parts_children render_parts_aria_busy split: option.splits)

lemma generateEditedImage_api_calls:
  assumes "uploadedImageData s = Some u" and "trim (promptInput_value s) \<noteq> []"
  shows "api_calls (generateEditedImage service s) =
           api_calls s @ [GenerateContent (edit_request u (trim (promptInput_value s)))]"
  using assms
  by (simp add: generateEditedImage_def Let_def console_log_def console_error_def
      setLoading_fields displayError_eq render_parts_api_calls
      split: option.splits outcome.splits)

lemma decimal_digit: "n < 10 \<Longrightarrow> decimal n = [digit n]"
  by (simp add: decimal.simps)

lemma length_filter_enumerate:
  "length (filter (\<lambda>(i, g). P g) (enumerate n xs)) = length (filter P xs)"
  by (induction xs arbitrary: n) simp_all

lemma generateEditedImage_rejected:
  assumes "uploadedImageData s = Some u" and "trim (promptInput_value s) \<noteq> []"
    and "models_generateContent service (edit_request u (trim (promptInput_value s))) =
           Rejected"
  shows "generateEditedImage service s =
           s\<lparr>imageGallery_aria_busy := str ''false'',
             imageGallery_children :=
               [Paragraph (str ''error'')
                  (str ''Error: '' @
                   str ''Could not edit image. Check the console for details.'')],
             api_calls :=
               api_calls s @ [GenerateContent (edit_request u (trim (promptInput_value s)))],
             console := console s @ [Console_error (str ''Error editing image:'')]\<rparr>"
  using assms
  by (simp add: generateEditedImage_def Let_def displayError_eq console_error_def
      setLoading_def)

lemma generateImages_rejected:
  assumes "models_generateImages service (generate_request (modelSelector_value s)) = Rejected"
  shows "generateImages service s =
           s\<lparr>imageGallery_aria_busy := str ''false'',
             imageGallery_children :=
               [Paragraph (str ''error'')
                  (str ''Error: '' @
                   str ''Could not generate images. Check the console for details.'')],
             api_calls :=
               api_calls s @ [GenerateImages (generate_request (modelSelector_value s))],
             console := console s @ [Console_error (str ''Error generating images:'')]\<rparr>"
  using assms
  by (simp add: generateImages_def Let_def displayError_eq console_error_def setLoading_def)

section \<open>The preconditions of an edit request\<close>

text \<open>
  C1. The edit request flow checks its two preconditions in order. With no uploaded image
  it shows "Please upload an image first." whatever the prompt is; with an image and a
  prompt that is empty once trimmed it shows "Please enter a prompt to describe the
  edits.". In both cases the resulting state is the old one with only the gallery
  changed: no call to the service is recorded, and the uploaded image and the prompt
  field are as before.
\<close>

theorem edit_preconditions:
  "(uploadedImageData s = None \<longrightarrow>
      generateEditedImage service s =
        s\<lparr>imageGallery_aria_busy := str ''false'',
          imageGallery_children :=
            [Paragraph (str ''error'') (str ''Error: '' @ str ''Please upload an image first.'')]\<rparr>
      \<and> api_calls (generateEditedImage service s) = api_calls s
      \<and> uploadedImageData (generateEditedImage service s) = uploadedImageData s
      \<and> promptInput_value (generateEditedImage service s) = promptInput_value s)
   \<and> (uploadedImageData s \<noteq> None \<and> trim (promptInput_value s) = [] \<longrightarrow>
      generateEditedImage service s =
        s\<lparr>imageGallery_aria_busy := str ''false'',
          imageGallery_children :=
            [Paragraph (str ''error'')
               (str ''Error: '' @ str ''Please enter a prompt to describe the edits.'')]\<rparr>
      \<and> api_calls (generateEditedImage service s) = api_calls s
      \<and> uploadedImageData (generateEditedImage service s) = uploadedImageData s
      \<and> promptInput_value (generateEditedImage service s) = promptInput_value s)"
  by (auto simp add: generateEditedImage_def displayError_eq)

theorem edit_preconditions_witness:
  "imageGallery_children (generateEditedImage service_images page_loaded) =
     [Paragraph (str ''error'') (str ''Error: '' @ str ''Please upload an image first.'')]
   \<and> api_calls (generateEditedImage service_images page_loaded) = []
   \<and> imageGallery_children (generateEditedImage service_images page_blank_prompt) =
     [Paragraph (str ''error'')
        (str ''Error: '' @ str ''Please enter a prompt to describe the edits.'')]
   \<and> api_calls (generateEditedImage service_images page_blank_prompt) = []
   \<and> uploadedImageData (generateEditedImage service_images page_blank_prompt) = Some uploaded_png
   \<and> promptInput_value (generateEditedImage service_images page_blank_prompt) =
       [0x20, 0x09, 0x0A, 0xA0]"
proof -
  have a: "uploadedImageData page_loaded = None"
    by (simp add: page_loaded_def)
  have b: "uploadedImageData page_blank_prompt \<noteq> None
             \<and> trim (promptInput_value page_blank_prompt) = []"
    by (simp add: page_blank_prompt_def trim_def is_white_space_def)
  have c: "api_calls page_loaded = []" "api_calls page_blank_prompt = []"
     "uploadedImageData page_blank_prompt = Some uploaded_png"
     "promptInput_value page_blank_prompt = [0x20, 0x09, 0x0A, 0xA0]"
    by (simp_all add: page_loaded_def page_blank_prompt_def)
  from edit_preconditions [of page_loaded service_images, THEN conjunct1, THEN mp, OF a]
    edit_preconditions [of page_blank_prompt service_images, THEN conjunct2, THEN mp, OF b]
  show ?thesis by (simp add: c)
qed

section \<open>Selecting a generation model\<close>

text \<open>
  C2. Selecting any identifier other than the editing model hides the edit controls and
  adds exactly one call to the trace of the service: a generate call whose model is the
  selected identifier and whose image count is 1 for
  \<^verbatim>\<open>imagen-4.0-ultra-generate-001\<close> and 3 for every other identifier.
\<close>

theorem select_generation_model:
  assumes "identifier \<noteq> str ''gemini-2.5-flash-image-preview''"
  shows "imageEditingControls_display (modelSelector_change identifier service s) = str ''none''
    \<and> api_calls (modelSelector_change identifier service s) =
          api_calls s @ [GenerateImages (generate_request identifier)]
    \<and> length (api_calls (modelSelector_change identifier service s)) = length (api_calls s) + 1
    \<and> images_model (generate_request identifier) = identifier
    \<and> numberOfImages (generate_request identifier) =
          (if identifier = str ''imagen-4.0-ultra-generate-001'' then 1 else 3)"
proof -
  let ?t = "(setLoading False (s\<lparr>modelSelector_value := identifier\<rparr>))
              \<lparr>imageGallery_children := [], imageEditingControls_display := str ''none''\<rparr>"
  have run: "modelSelector_change identifier service s = generateImages service ?t"
    using assms by (simp add: modelSelector_change_def handleModelChange_def Let_def)
  have sel: "modelSelector_value ?t = identifier" and calls: "api_calls ?t = api_calls s"
    by (simp_all add: setLoading_fields)
  have hidden: "imageEditingControls_display (generateImages service ?t) = str ''none''"
    by (simp add: generateImages_def Let_def displayError_eq console_error_def
        console_log_def setLoading_fields forEach_generated_controls
        split: outcome.splits option.splits)
  have trace: "api_calls (generateImages service ?t) =
                 api_calls s @ [GenerateImages (generate_request identifier)]"
    by (simp only: generateImages_api_calls sel calls)
  show ?thesis
    by (simp add: run hidden trace) (simp add: generate_request_def)
qed

theorem select_generation_model_witness:
  "api_calls (modelSelector_change (str ''imagen-4.0-ultra-generate-001'') service_images
                page_ready) =
     [GenerateImages (generate_request (str ''imagen-4.0-ultra-generate-001''))]
   \<and> numberOfImages (generate_request (str ''imagen-4.0-ultra-generate-001'')) = 1
   \<and> imageEditingControls_display
        (modelSelector_change (str ''imagen-4.0-ultra-generate-001'') service_images
           page_ready) = str ''none''
   \<and> api_calls (modelSelector_change (str ''imagen-3.0-generate-002'') service_images
                page_ready) =
     [GenerateImages (generate_request (str ''imagen-3.0-generate-002''))]
   \<and> numberOfImages (generate_request (str ''imagen-3.0-generate-002'')) = 3"
proof -
  have a: "str ''imagen-4.0-ultra-generate-001'' \<noteq> str ''gemini-2.5-flash-image-preview''"
    by (simp add: str_def)
  have b: "str ''imagen-3.0-generate-002'' \<noteq> str ''gemini-2.5-flash-image-preview''"
    by (simp add: str_def)
  have c: "str ''imagen-3.0-generate-002'' \<noteq> str ''imagen-4.0-ultra-generate-001''"
    by (simp add: str_def)
  have d: "api_calls page_ready = []"
    by (simp add: page_ready_def page_loaded_def)
  from select_generation_model [OF a, of service_images page_ready]
    select_generation_model [OF b, of service_images page_ready]
  show ?thesis by (simp add: c d)
qed

section \<open>Rendering the images of a response\<close>

text \<open>
  C3. After a call that resolves, the images of the gallery are exactly the image parts of
  the response, in the order of the response. In the edit flow an image part is a part
  with inline data, and every image carries the trimmed prompt as its alt text; a
  response without a list of parts has no image part and yields no image. In the generate
  flow an image part is an entry whose image bytes are present and not empty, and its alt
  text is the fixed prompt followed by " - Image " and the entry's 1-based position in the
  list of the response.
\<close>

theorem rendered_images_follow_response:
  "(uploadedImageData s = Some u \<and> trim (promptInput_value s) \<noteq> []
      \<and> models_generateContent service (edit_request u (trim (promptInput_value s))) =
          Resolved response
    \<longrightarrow>
      rendered_images (generateEditedImage service s) =
        map (\<lambda>b. Img (inline_src b) (trim (promptInput_value s)))
          (List.map_filter part_inlineData
             (case response_parts response of None \<Rightarrow> [] | Some ps \<Rightarrow> ps))
      \<and> length (rendered_images (generateEditedImage service s)) =
          length (filter (\<lambda>p. part_inlineData p \<noteq> None)
             (case response_parts response of None \<Rightarrow> [] | Some ps \<Rightarrow> ps)))
   \<and> (models_generateImages service (generate_request (modelSelector_value t)) =
          Resolved answer
    \<longrightarrow>
      rendered_images (generateImages service t) =
        map (\<lambda>(i, g). Img (str ''data:image/jpeg;base64,'' @ template_opt (image_bytes g))
                         (imagenPrompt @ str '' - Image '' @ decimal (i + 1)))
          (filter (\<lambda>(i, g). has_image_bytes g)
             (enumerate 0
                (case response_generatedImages answer of None \<Rightarrow> [] | Some gs \<Rightarrow> gs)))
      \<and> length (rendered_images (generateImages service t)) =
          length (filter has_image_bytes
             (case response_generatedImages answer of None \<Rightarrow> [] | Some gs \<Rightarrow> gs)))"
proof (intro conjI impI)
  assume e: "uploadedImageData s = Some u \<and> trim (promptInput_value s) \<noteq> []
      \<and> models_generateContent service (edit_request u (trim (promptInput_value s))) =
          Resolved response"
  let ?ps = "case response_parts response of None \<Rightarrow> [] | Some ps \<Rightarrow> ps"
  from e have e1: "uploadedImageData s = Some u"
    and e2: "trim (promptInput_value s) \<noteq> []"
    and e3: "models_generateContent service (edit_request u (trim (promptInput_value s))) =
      Resolved response"
    by blast+
  note children = generateEditedImage_resolved(1) [OF e1 e2 e3]
  show images: "rendered_images (generateEditedImage service s) =
      map (\<lambda>b. Img (inline_src b) (trim (promptInput_value s)))
        (List.map_filter part_inlineData ?ps)"
    by (simp add: rendered_images_def children map_filter_simps filter_map comp_def
        split: option.splits)
  show "length (rendered_images (generateEditedImage service s)) =
      length (filter (\<lambda>p. part_inlineData p \<noteq> None) ?ps)"
    by (simp only: images length_map) (simp add: List.map_filter_def)
next
  assume g: "models_generateImages service (generate_request (modelSelector_value t)) =
      Resolved answer"
  let ?gs = "case response_generatedImages answer of None \<Rightarrow> [] | Some gs \<Rightarrow> gs"
  note children = generateImages_resolved(1) [OF g]
  show images: "rendered_images (generateImages service t) =
      map (\<lambda>(i, g). Img (str ''data:image/jpeg;base64,'' @ template_opt (image_bytes g))
                       (imagenPrompt @ str '' - Image '' @ decimal (i + 1)))
        (filter (\<lambda>(i, g). has_image_bytes g) (enumerate 0 ?gs))"
    by (simp add: rendered_images_def children generated_node_def filter_map comp_def
        case_prod_unfold split: option.splits)
  show "length (rendered_images (generateImages service t)) =
      length (filter has_image_bytes ?gs)"
    by (simp only: images length_map length_filter_enumerate)
qed

theorem rendered_images_follow_response_witness:
  "rendered_images (generateEditedImage service_images page_ready) =
     [Img (str ''data:image/png;base64,AAAA'') (str ''add a hat''),
      Img (str ''data:image/png;base64,BBBB'') (str ''add a hat'')]
   \<and> rendered_images (generateImages service_images page_generation) =
     [Img (str ''data:image/jpeg;base64,AAAA'') (imagenPrompt @ str '' - Image 1''),
      Img (str ''data:image/jpeg;base64,CCCC'') (imagenPrompt @ str '' - Image 3'')]"
proof -
  let ?response = "Some (content_response
      (Some [image_part ''AAAA'', text_part ''Here you go'', image_part ''BBBB'']))"
  let ?answer = "Some \<lparr>generatedImages =
      Some [generated (Some ''AAAA''), generated None, generated (Some ''CCCC'')]\<rparr>"
  have prompt: "trim (promptInput_value page_ready) = str ''add a hat''"
    by (simp add: page_ready_def trim_def is_white_space_def str_def)
  have a: "uploadedImageData page_ready = Some uploaded_png
      \<and> trim (promptInput_value page_ready) \<noteq> []
      \<and> models_generateContent service_images
          (edit_request uploaded_png (trim (promptInput_value page_ready))) =
          Resolved ?response"
    by (simp add: prompt) (simp add: page_ready_def service_images_def str_def)
  have b: "models_generateImages service_images
      (generate_request (modelSelector_value page_generation)) = Resolved ?answer"
    by (simp add: service_images_def)
  have parts: "response_parts ?response =
      Some [image_part ''AAAA'', text_part ''Here you go'', image_part ''BBBB'']"
    by (simp add: response_parts_def content_response_def)
  have list: "response_generatedImages ?answer =
      Some [generated (Some ''AAAA''), generated None, generated (Some ''CCCC'')]"
    by (simp add: response_generatedImages_def)
  have one: "decimal (Suc 0) = str ''1''" and three: "decimal (Suc (Suc (Suc 0))) = str ''3''"
    by (simp_all add: decimal_digit digit_def str_def)
  have e: "rendered_images (generateEditedImage service_images page_ready) =
      map (\<lambda>b. Img (inline_src b) (str ''add a hat''))
        (List.map_filter part_inlineData
           [image_part ''AAAA'', text_part ''Here you go'', image_part ''BBBB''])"
    using rendered_images_follow_response
      [of page_ready uploaded_png service_images ?response page_generation ?answer,
       THEN conjunct1, THEN mp, OF a, THEN conjunct1]
    by (simp only: parts prompt option.case)
  have g: "rendered_images (generateImages service_images page_generation) =
      map (\<lambda>(i, g). Img (str ''data:image/jpeg;base64,'' @ template_opt (image_bytes g))
                       (imagenPrompt @ str '' - Image '' @ decimal (i + 1)))
        (filter (\<lambda>(i, g). has_image_bytes g)
           (enumerate 0 [generated (Some ''AAAA''), generated None, generated (Some ''CCCC'')]))"
    using rendered_images_follow_response
      [of page_ready uploaded_png service_images ?response page_generation ?answer,
       THEN conjunct2, THEN mp, OF b, THEN conjunct1]
    by (simp only: list option.case)
  show ?thesis
    by (simp add: e g map_filter_simps image_part_def text_part_def inline_src_def
        template_opt_def generated_def image_bytes_def has_image_bytes_def one three)
      (simp add: str_def)
qed

section \<open>A call that fails\<close>

text \<open>
  C4. When the call of the service throws or rejects, the flow that made it ends with a
  gallery that holds exactly one element, the generic error paragraph of that flow ("Could
  not edit image. Check the console for details." or "Could not generate images. Check
  the console for details."), and with \<^verbatim>\<open>aria-busy\<close> set to false.
\<close>

theorem rejected_call_shows_one_error:
  "(uploadedImageData s = Some u \<and> trim (promptInput_value s) \<noteq> []
      \<and> models_generateContent service (edit_request u (trim (promptInput_value s))) =
          Rejected
    \<longrightarrow>
      imageGallery_children (generateEditedImage service s) =
        [Paragraph (str ''error'')
           (str ''Error: '' @ str ''Could not edit image. Check the console for details.'')]
      \<and> imageGallery_aria_busy (generateEditedImage service s) = str ''false'')
   \<and> (models_generateImages service (generate_request (modelSelector_value t)) = Rejected
    \<longrightarrow>
      imageGallery_children (generateImages service t) =
        [Paragraph (str ''error'')
           (str ''Error: '' @
            str ''Could not generate images. Check the console for details.'')]
      \<and> imageGallery_aria_busy (generateImages service t) = str ''false'')"
  by (simp add: generateEditedImage_rejected generateImages_rejected)

theorem rejected_call_shows_one_error_witness:
  "imageGallery_children (generateEditedImage service_rejecting page_ready) =
     [Paragraph (str ''error'')
        (str ''Error: '' @ str ''Could not edit image. Check the console for details.'')]
   \<and> imageGallery_aria_busy (generateEditedImage service_rejecting page_ready) = str ''false''
   \<and> imageGallery_children (generateImages service_rejecting page_generation) =
     [Paragraph (str ''error'')
        (str ''Error: '' @ str ''Could not generate images. Check the console for details.'')]
   \<and> imageGallery_aria_busy (generateImages service_rejecting page_generation) = str ''false''"
proof -
  have a: "uploadedImageData page_ready = Some uploaded_png
      \<and> trim (promptInput_value page_ready) \<noteq> []
      \<and> models_generateContent service_rejecting
          (edit_request uploaded_png (trim (promptInput_value page_ready))) = Rejected"
    by (simp add: page_ready_def service_rejecting_def trim_def is_white_space_def str_def)
  have b: "models_generateImages service_rejecting
      (generate_request (modelSelector_value page_generation)) = Rejected"
    by (simp add: service_rejecting_def)
  from rejected_call_shows_one_error
      [of page_ready uploaded_png service_rejecting page_generation,
       THEN conjunct1, THEN mp, OF a]
    rejected_call_shows_one_error
      [of page_ready uploaded_png service_rejecting page_generation,
       THEN conjunct2, THEN mp, OF b]
  show ?thesis by simp
qed

section \<open>Switching to the editing model\<close>

text \<open>
  C5. Selecting the editing model clears the uploaded image, the prompt field, the file
  input and the preview, and shows the edit controls; no call to the service is made.
\<close>

theorem switch_to_editing_resets:
  "uploadedImageData
     (modelSelector_change (str ''gemini-2.5-flash-image-preview'') service s) = None
   \<and> promptInput_value
     (modelSelector_change (str ''gemini-2.5-flash-image-preview'') service s) = []
   \<and> imageUpload_value
     (modelSelector_change (str ''gemini-2.5-flash-image-preview'') service s) = []
   \<and> imagePreview_src
     (modelSelector_change (str ''gemini-2.5-flash-image-preview'') service s) = str ''#''
   \<and> imagePreview_display
     (modelSelector_change (str ''gemini-2.5-flash-image-preview'') service s) = str ''none''
   \<and> imageEditingControls_display
     (modelSelector_change (str ''gemini-2.5-flash-image-preview'') service s) = str ''flex''
   \<and> api_calls
     (modelSelector_change (str ''gemini-2.5-flash-image-preview'') service s) = api_calls s"
  by (simp add: modelSelector_change_def handleModelChange_def Let_def setLoading_def)

theorem switch_to_editing_resets_witness:
  "uploadedImageData page_generation = Some uploaded_png
   \<and> promptInput_value page_generation = str '' add a hat ''
   \<and> uploadedImageData
       (modelSelector_change (str ''gemini-2.5-flash-image-preview'') service_images
          page_generation) = None
   \<and> promptInput_value
       (modelSelector_change (str ''gemini-2.5-flash-image-preview'') service_images
          page_generation) = []
   \<and> imageEditingControls_display
       (modelSelector_change (str ''gemini-2.5-flash-image-preview'') service_images
          page_generation) = str ''flex''"
  using switch_to_editing_resets [of service_images page_generation]
  by (simp add: page_generation_def page_ready_def)

section \<open>An edit response without parts\<close>

text \<open>
  C6, as amended. After an edit call that resolves to a response whose list of parts is
  absent (the response, its candidates, its first candidate, that candidate's content or
  the content's parts are missing), the gallery holds exactly the error paragraph "No
  image was generated. The response may have been blocked.", no image, and
  \<^verbatim>\<open>aria-busy\<close> is false. When the list of parts is present but empty, the gallery
  is empty and \<^verbatim>\<open>aria-busy\<close> is false.
\<close>

theorem edit_absent_parts_reports_error:
  assumes "uploadedImageData s = Some u" and "trim (promptInput_value s) \<noteq> []"
    and "models_generateContent service (edit_request u (trim (promptInput_value s))) =
           Resolved response"
  shows "(response_parts response = None \<longrightarrow>
            imageGallery_children (generateEditedImage service s) =
              [Paragraph (str ''error'')
                 (str ''Error: '' @
                  str ''No image was generated. The response may have been blocked.'')]
            \<and> rendered_images (generateEditedImage service s) = []
            \<and> imageGallery_aria_busy (generateEditedImage service s) = str ''false'')
       \<and> (response_parts response = Some [] \<longrightarrow>
            imageGallery_children (generateEditedImage service s) = []
            \<and> imageGallery_aria_busy (generateEditedImage service s) = str ''false'')"
  by (simp add: generateEditedImage_resolved [OF assms] rendered_images_def map_filter_simps)

theorem edit_absent_parts_reports_error_witness:
  "imageGallery_children (generateEditedImage service_blocked page_ready) =
     [Paragraph (str ''error'')
        (str ''Error: '' @
         str ''No image was generated. The response may have been blocked.'')]
   \<and> rendered_images (generateEditedImage service_blocked page_ready) = []
   \<and> imageGallery_aria_busy (generateEditedImage service_blocked page_ready) = str ''false''
   \<and> imageGallery_aria_busy (generateEditedImage service_empty page_ready) = str ''false''"
proof -
  have upload: "uploadedImageData page_ready = Some uploaded_png"
    by (simp add: page_ready_def)
  have nonempty: "trim (promptInput_value page_ready) \<noteq> []"
    by (simp add: page_ready_def trim_def is_white_space_def str_def)
  have blocked: "models_generateContent service_blocked
      (edit_request uploaded_png (trim (promptInput_value page_ready))) =
      Resolved (Some \<lparr>response_candidates = None\<rparr>)"
    by (simp add: service_blocked_def)
  have empty: "models_generateContent service_empty
      (edit_request uploaded_png (trim (promptInput_value page_ready))) =
      Resolved (Some (content_response (Some [])))"
    by (simp add: service_empty_def)
  have absent: "response_parts (Some \<lparr>response_candidates = None\<rparr>) = None"
    by (simp add: response_parts_def)
  have none: "response_parts (Some (content_response (Some []))) = Some []"
    by (simp add: response_parts_def content_response_def)
  from edit_absent_parts_reports_error [OF upload nonempty blocked, THEN conjunct1, THEN mp,
      OF absent]
    edit_absent_parts_reports_error [OF upload nonempty empty, THEN conjunct2, THEN mp,
      OF none]
  show ?thesis by simp
qed

text \<open>
  A response whose list of parts is present and empty contains no part at all, and yet no
  error is shown for it: the test of the code is on the presence of the list.
\<close>

theorem edit_empty_parts_counterexample:
  "response_parts (Some (content_response (Some []))) = Some []
   \<and> models_generateContent service_empty
        (edit_request uploaded_png (trim (promptInput_value page_ready))) =
       Resolved (Some (content_response (Some [])))
   \<and> uploadedImageData page_ready = Some uploaded_png
   \<and> trim (promptInput_value page_ready) = str ''add a hat''
   \<and> imageGallery_children (generateEditedImage service_empty page_ready) = []
   \<and> imageGallery_children (generateEditedImage service_empty page_ready) \<noteq>
       [Paragraph (str ''error'')
          (str ''Error: '' @
           str ''No image was generated. The response may have been blocked.'')]"
proof -
  have prompt: "trim (promptInput_value page_ready) = str ''add a hat''"
    by (simp add: page_ready_def trim_def is_white_space_def str_def)
  have upload: "uploadedImageData page_ready = Some uploaded_png"
    by (simp add: page_ready_def)
  have nonempty: "trim (promptInput_value page_ready) \<noteq> []"
    by (simp add: prompt) (simp add: str_def)
  have call: "models_generateContent service_empty
      (edit_request uploaded_png (trim (promptInput_value page_ready))) =
      Resolved (Some (content_response (Some [])))"
    by (simp add: service_empty_def)
  have parts: "response_parts (Some (content_response (Some []))) = Some []"
    by (simp add: response_parts_def content_response_def)
  have "imageGallery_children (generateEditedImage service_empty page_ready) = []"
    by (simp add: generateEditedImage_resolved(1) [OF upload nonempty call] parts
        map_filter_simps)
  then show ?thesis
    by (simp add: prompt upload parts service_empty_def)
qed

section \<open>A generate response without images\<close>

text \<open>
  C7. After a generate call that resolves to a response whose image list is absent or
  empty, the gallery is empty (no image and no message of any kind) and
  \<^verbatim>\<open>aria-busy\<close> is false.
\<close>

theorem generate_without_images_is_silent:
  assumes "models_generateImages service (generate_request (modelSelector_value s)) =
             Resolved response"
    and "response_generatedImages response = None
           \<or> response_generatedImages response = Some []"
  shows "imageGallery_children (generateImages service s) = []
       \<and> imageGallery_aria_busy (generateImages service s) = str ''false''"
  using assms(2) by (auto simp add: generateImages_resolved [OF assms(1)])

theorem generate_without_images_is_silent_witness:
  "imageGallery_children (generateImages service_blocked page_generation) = []
   \<and> imageGallery_aria_busy (generateImages service_blocked page_generation) = str ''false''
   \<and> imageGallery_children (generateImages service_empty page_generation) = []
   \<and> imageGallery_aria_busy (generateImages service_empty page_generation) = str ''false''"
proof -
  have blocked: "models_generateImages service_blocked
      (generate_request (modelSelector_value page_generation)) =
      Resolved (Some \<lparr>generatedImages = None\<rparr>)"
    by (simp add: service_blocked_def)
  have empty: "models_generateImages service_empty
      (generate_request (modelSelector_value page_generation)) =
      Resolved (Some \<lparr>generatedImages = Some []\<rparr>)"
    by (simp add: service_empty_def)
  have absent: "response_generatedImages (Some \<lparr>generatedImages = None\<rparr>) = None
      \<or> response_generatedImages (Some \<lparr>generatedImages = None\<rparr>) = Some []"
    by (simp add: response_generatedImages_def)
  have none: "response_generatedImages (Some \<lparr>generatedImages = Some []\<rparr>) = None
      \<or> response_generatedImages (Some \<lparr>generatedImages = Some []\<rparr>) = Some []"
    by (simp add: response_generatedImages_def)
  from generate_without_images_is_silent [OF blocked absent]
    generate_without_images_is_silent [OF empty none]
  show ?thesis by simp
qed

section \<open>The request of the generate flow\<close>

text \<open>
  C8. The generate flow makes one call, with the selected model, the fixed prompt, the
  image count computed from the model, the aspect ratio "1:1", the person generation
  policy \<open>ALLOW_ADULT\<close>, the output type "image/jpeg" and the flag for safety-filter
  reasons set. Two runs with the same selected model send the same request, whatever the
  rest of the page and whatever the service answers.
\<close>

theorem generate_request_is_fixed:
  "api_calls (generateImages service s) =
     api_calls s @
       [GenerateImages
          \<lparr>images_model = modelSelector_value s,
           images_prompt = imagenPrompt,
           numberOfImages =
             (if modelSelector_value s = str ''imagen-4.0-ultra-generate-001'' then 1 else 3),
           aspectRatio = str ''1:1'',
           personGeneration = ALLOW_ADULT,
           outputMimeType = str ''image/jpeg'',
           includeRaiReason = True\<rparr>]
   \<and> (modelSelector_value t = modelSelector_value s \<longrightarrow>
        last (api_calls (generateImages other t)) = last (api_calls (generateImages service s)))"
  by (simp add: generateImages_api_calls generate_request_def)

theorem generate_request_is_fixed_witness:
  "api_calls (generateImages service_images page_generation) =
     [GenerateImages
        \<lparr>images_model = str ''imagen-4.0-generate-001'',
         images_prompt = imagenPrompt,
         numberOfImages = 3,
         aspectRatio = str ''1:1'',
         personGeneration = ALLOW_ADULT,
         outputMimeType = str ''image/jpeg'',
         includeRaiReason = True\<rparr>]
   \<and> last (api_calls (generateImages service_rejecting
        (page_loaded\<lparr>modelSelector_value := str ''imagen-4.0-generate-001''\<rparr>))) =
      last (api_calls (generateImages service_images page_generation))"
proof -
  have sel: "modelSelector_value page_generation = str ''imagen-4.0-generate-001''"
    and calls: "api_calls page_generation = []"
    by (simp_all add: page_generation_def page_ready_def page_loaded_def)
  have same: "modelSelector_value
      (page_loaded\<lparr>modelSelector_value := str ''imagen-4.0-generate-001''\<rparr>) =
      modelSelector_value page_generation"
    by (simp add: sel)
  have other: "str ''imagen-4.0-generate-001'' \<noteq> str ''imagen-4.0-ultra-generate-001''"
    by (simp add: str_def)
  from generate_request_is_fixed [of service_images page_generation, THEN conjunct1]
    generate_request_is_fixed [of service_images page_generation
      "page_loaded\<lparr>modelSelector_value := str ''imagen-4.0-generate-001''\<rparr>"
      service_rejecting, THEN conjunct2, THEN mp, OF same]
  show ?thesis by (simp add: sel calls other)
qed

section \<open>The model of the edit flow\<close>

text \<open>
  C9. An edit flow that passes its preconditions makes one call, and the model of that
  call is \<^verbatim>\<open>gemini-2.5-flash-image-preview\<close> whatever the selector's value is.
\<close>

theorem edit_model_is_hard_coded:
  assumes "uploadedImageData s = Some u" and "trim (promptInput_value s) \<noteq> []"
  shows "api_calls (generateEditedImage service (s\<lparr>modelSelector_value := selected\<rparr>)) =
           api_calls s @ [GenerateContent (edit_request u (trim (promptInput_value s)))]
       \<and> content_model (edit_request u (trim (promptInput_value s))) =
           str ''gemini-2.5-flash-image-preview''"
proof -
  have "uploadedImageData (s\<lparr>modelSelector_value := selected\<rparr>) = Some u"
    and "trim (promptInput_value (s\<lparr>modelSelector_value := selected\<rparr>)) \<noteq> []"
    using assms by simp_all
  from generateEditedImage_api_calls [OF this] show ?thesis
    by (simp add: edit_request_def)
qed

theorem edit_model_is_hard_coded_witness:
  "api_calls (generateEditedImage service_images
       (page_ready\<lparr>modelSelector_value := str ''imagen-3.0-generate-002''\<rparr>)) =
     [GenerateContent (edit_request uploaded_png (str ''add a hat''))]
   \<and> content_model (edit_request uploaded_png (str ''add a hat'')) =
       str ''gemini-2.5-flash-image-preview''"
proof -
  have prompt: "trim (promptInput_value page_ready) = str ''add a hat''"
    by (simp add: page_ready_def trim_def is_white_space_def str_def)
  have upload: "uploadedImageData page_ready = Some uploaded_png"
    and calls: "api_calls page_ready = []"
    by (simp_all add: page_ready_def page_loaded_def)
  have nonempty: "trim (promptInput_value page_ready) \<noteq> []"
    by (simp add: prompt) (simp add: str_def)
  from edit_model_is_hard_coded [OF upload nonempty, of service_images
      "str ''imagen-3.0-generate-002''"]
  show ?thesis by (simp add: prompt calls)
qed

section \<open>The numbering of generated images\<close>

text \<open>
  C10. In the generate flow the number in the alt text of a rendered image is one more
  than the index of its entry in the whole list of the response: an entry that is skipped
  for lack of image bytes still takes its number, so the numbers shown need not be
  consecutive.
\<close>

theorem generated_alt_counts_skipped_entries:
  assumes "models_generateImages service (generate_request (modelSelector_value s)) =
             Resolved response"
    and "response_generatedImages response = Some gs"
  shows "imageGallery_children (generateImages service s) =
           map (\<lambda>i. Img (str ''data:image/jpeg;base64,'' @ template_opt (image_bytes (gs ! i)))
                        (imagenPrompt @ str '' - Image '' @ decimal (i + 1)))
             (filter (\<lambda>i. has_image_bytes (gs ! i)) [0..<length gs])"
  by (simp add: generateImages_resolved(1) [OF assms(1)] assms(2) enumerate_as_indices
      filter_map comp_def generated_node_def)

theorem generated_alt_counts_skipped_entries_witness:
  "map alt (imageGallery_children (generateImages service_images page_generation)) =
     [imagenPrompt @ str '' - Image 1'', imagenPrompt @ str '' - Image 3'']"
proof -
  let ?gs = "[generated (Some ''AAAA''), generated None, generated (Some ''CCCC'')]"
  have call: "models_generateImages service_images
      (generate_request (modelSelector_value page_generation)) =
      Resolved (Some \<lparr>generatedImages = Some ?gs\<rparr>)"
    by (simp add: service_images_def)
  have list: "response_generatedImages (Some \<lparr>generatedImages = Some ?gs\<rparr>) = Some ?gs"
    by (simp add: response_generatedImages_def)
  have indices: "[0..<length ?gs] = [0, Suc 0, Suc (Suc 0)]"
    by (simp add: upt_rec)
  have one: "decimal (Suc 0) = str ''1''" and three: "decimal (Suc (Suc (Suc 0))) = str ''3''"
    by (simp_all add: decimal_digit digit_def str_def)
  from generated_alt_counts_skipped_entries [OF call list]
  show ?thesis
    by (simp only: indices)
      (simp add: generated_def image_bytes_def has_image_bytes_def one three str_def)
qed

end
